theory Spec2Isabelle
  imports Main
begin

section \<open>Shared conventions\<close>

text \<open>
  The front end is TypeScript over zustand stores. A store is a record; an action takes
  the store and returns the store it leaves behind (\<open>set\<close> merges the given fields
  into the state). An asynchronous action awaits one call of the HTTP client; the
  service behind it is a parameter of the action: it takes the state of the service and
  the request and returns the next state of the service with \<open>Some\<close> response, or
  \<open>None\<close> when the awaited promise rejects (or the response cannot be read), which
  is the \<open>catch\<close> branch of the source. One call of an action runs from start to
  end; other actions interleaved at the \<open>await\<close> are outside the model.

  Step numbers, component ids and the budget are JavaScript numbers that only ever hold
  integers here; they are \<open>int\<close>.
\<close>

text \<open>JavaScript truthiness of a \<open>string | null\<close>: null and the empty string are falsy.\<close>

definition truthy :: "string option \<Rightarrow> bool" where
  "truthy s = (case s of None \<Rightarrow> False | Some v \<Rightarrow> v \<noteq> [])"

text \<open>The two fields every store carries: \<open>isLoading: boolean\<close> and \<open>error: string | null\<close>.\<close>

record StoreStatus =
  isLoading :: bool
  error :: "string option"

section \<open>stores/wizardStore.ts\<close>

datatype ExperienceLevel = Beginner | Intermediate | Advanced
datatype UseCase = Learning | Research | Production
datatype ComputePlatform = Cuda | Mps | Xpu | Cpu
datatype CameraPreference = Basic | Realsense | Multiple | Phone
datatype ArmType = Single | Dual

text \<open>\<open>interface WizardProfile\<close>: every field is optional (\<open>None\<close> is \<open>undefined\<close>).\<close>

record WizardProfile =
  experience :: "ExperienceLevel option"
  budget :: "int option"
  use_case :: "UseCase option"
  compute_platform :: "ComputePlatform option"
  camera_preference :: "CameraPreference option"
  arm_type :: "ArmType option"

text \<open>The empty object \<open>{}\<close> as a profile.\<close>

definition empty_profile :: WizardProfile where
  "empty_profile = \<lparr>experience = None, budget = None, use_case = None,
     compute_platform = None, camera_preference = None, arm_type = None\<rparr>"

text \<open>The object spread \<open>{ ...p, ...q }\<close>: a field that \<open>q\<close> defines wins.\<close>

definition spread :: "'a option \<Rightarrow> 'a option \<Rightarrow> 'a option" where
  "spread a b = (case b of None \<Rightarrow> a | Some v \<Rightarrow> Some v)"

definition merge_profile :: "WizardProfile \<Rightarrow> WizardProfile \<Rightarrow> WizardProfile" where
  "merge_profile p q =
     \<lparr>experience = spread (experience p) (experience q),
      budget = spread (budget p) (budget q),
      use_case = spread (use_case p) (use_case q),
      compute_platform = spread (compute_platform p) (compute_platform q),
      camera_preference = spread (camera_preference p) (camera_preference q),
      arm_type = spread (arm_type p) (arm_type q)\<rparr>"

record WizardState = StoreStatus +
  setupId :: "string option"
  currentStep :: int
  profile :: WizardProfile
  wizardCompleted :: bool

text \<open>\<open>response.data\<close> of \<open>PUT /wizard/{setup_id}/step/{n}\<close>, as \<open>updateStep\<close> reads it.\<close>

record StepResponse =
  current_step :: int
  response_profile :: WizardProfile
  wizard_completed :: bool

text \<open>The state the store is created with; \<open>reset\<close> sets the same fields.\<close>

definition initial_wizard :: WizardState where
  "initial_wizard = \<lparr>isLoading = False, error = None, setupId = None, currentStep = 1,
     profile = empty_profile, wizardCompleted = False\<rparr>"

text \<open>\<open>startWizard\<close>: the service answers \<open>POST /wizard/start\<close> with the new setup id.\<close>

definition startWizard ::
  "('srv \<Rightarrow> 'srv \<times> string option) \<Rightarrow> 'srv \<Rightarrow> WizardState \<Rightarrow> 'srv \<times> WizardState" where
  "startWizard api srv st =
     (let st1 = st\<lparr>isLoading := True, error := None\<rparr> in
      case api srv of
        (srv', Some setup_id) \<Rightarrow>
          (srv', st1\<lparr>setupId := Some setup_id, currentStep := 1, profile := empty_profile,
                     wizardCompleted := False, isLoading := False\<rparr>)
      | (srv', None) \<Rightarrow>
          (srv', st1\<lparr>error := Some ''Failed to start wizard'', isLoading := False\<rparr>))"

text \<open>
  \<open>updateStep\<close>: without an active setup (\<open>!setupId\<close>: null or empty) only the
  error is set and the action returns; otherwise the step is sent to the service and the
  answer replaces step, profile and completion flag, or the \<open>catch\<close> branch records
  the failure. The step data is typed \<open>Record<string, unknown>\<close>; its one caller,
  \<open>handleNext\<close>, fills it with fields of the profile, so it is a partial profile here.
\<close>

definition updateStep ::
  "('srv \<Rightarrow> string \<times> int \<times> WizardProfile \<Rightarrow> 'srv \<times> StepResponse option) \<Rightarrow>
     'srv \<Rightarrow> WizardState \<Rightarrow> int \<Rightarrow> WizardProfile \<Rightarrow> 'srv \<times> WizardState" where
  "updateStep api srv st step data =
     (case setupId st of
        None \<Rightarrow> (srv, st\<lparr>error := Some ''No active setup''\<rparr>)
      | Some sid \<Rightarrow>
          if sid = [] then (srv, st\<lparr>error := Some ''No active setup''\<rparr>)
          else
            (let st1 = st\<lparr>isLoading := True, error := None\<rparr> in
             case api srv (sid, step, data) of
               (srv', Some r) \<Rightarrow>
                 (srv', st1\<lparr>currentStep := current_step r, profile := response_profile r,
                            wizardCompleted := wizard_completed r, isLoading := False\<rparr>)
             | (srv', None) \<Rightarrow>
                 (srv', st1\<lparr>error := Some ''Failed to save step'', isLoading := False\<rparr>)))"

definition goToStep :: "WizardState \<Rightarrow> int \<Rightarrow> WizardState" where
  "goToStep st step = (if step \<ge> 1 \<and> step \<le> 5 then st\<lparr>currentStep := step\<rparr> else st)"

definition setProfile :: "WizardState \<Rightarrow> WizardProfile \<Rightarrow> WizardState" where
  "setProfile st p = st\<lparr>profile := merge_profile (profile st) p\<rparr>"

definition reset :: "WizardState \<Rightarrow> WizardState" where
  "reset st = st\<lparr>setupId := None, currentStep := 1, profile := empty_profile,
     isLoading := False, error := None, wizardCompleted := False\<rparr>"

section \<open>Observing requests\<close>

text \<open>
  A service that keeps the list of the requests it has received, in order, and answers
  each with \<open>respond\<close>. Passed to an action, it shows which requests the action sends.
\<close>

definition recording :: "('q \<Rightarrow> 'a option) \<Rightarrow> 'q list \<Rightarrow> 'q \<Rightarrow> 'q list \<times> 'a option" where
  "recording respond received q = (received @ [q], respond q)"

section \<open>pages/WizardPage.tsx\<close>

text \<open>
  \<open>handleNext\<close> builds the step data by a \<open>switch\<close> on \<open>currentStep\<close> (any other
  step leaves it \<open>{}\<close>) and calls \<open>updateStep(currentStep, stepData)\<close>. The request
  of \<open>wizardApi.updateStep\<close> is the triple (setup id, step, step data).
\<close>

definition stepData :: "WizardState \<Rightarrow> WizardProfile" where
  "stepData st =
     (if currentStep st = 1 then empty_profile\<lparr>experience := experience (profile st)\<rparr>
      else if currentStep st = 2 then empty_profile\<lparr>budget := budget (profile st)\<rparr>
      else if currentStep st = 3 then
        empty_profile\<lparr>use_case := use_case (profile st), arm_type := arm_type (profile st)\<rparr>
      else if currentStep st = 4 then
        empty_profile\<lparr>compute_platform := compute_platform (profile st)\<rparr>
      else if currentStep st = 5 then
        empty_profile\<lparr>camera_preference := camera_preference (profile st)\<rparr>
      else empty_profile)"

definition handleNext ::
  "('srv \<Rightarrow> string \<times> int \<times> WizardProfile \<Rightarrow> 'srv \<times> StepResponse option) \<Rightarrow>
     'srv \<Rightarrow> WizardState \<Rightarrow> 'srv \<times> WizardState" where
  "handleNext api srv st = updateStep api srv st (currentStep st) (stepData st)"

definition handleBack :: "WizardState \<Rightarrow> WizardState" where
  "handleBack st = (if currentStep st > 1 then goToStep st (currentStep st - 1) else st)"

text \<open>
  \<open>canProceed\<close>: \<open>!!profile.x\<close> holds when the field is defined (its values are
  non-empty strings); the budget is compared with \<open>undefined\<close>.
\<close>

definition canProceed :: "WizardState \<Rightarrow> bool" where
  "canProceed st =
     (if currentStep st = 1 then experience (profile st) \<noteq> None
      else if currentStep st = 2 then budget (profile st) \<noteq> None
      else if currentStep st = 3 then use_case (profile st) \<noteq> None
      else if currentStep st = 4 then compute_platform (profile st) \<noteq> None
      else if currentStep st = 5 then camera_preference (profile st) \<noteq> None
      else False)"

text \<open>
  The Next button: \<open>disabled={!canProceed() || isLoading}\<close>, \<open>onClick={handleNext}\<close>.
  A disabled button runs no handler.
\<close>

definition next_disabled :: "WizardState \<Rightarrow> bool" where
  "next_disabled st = (\<not> canProceed st \<or> isLoading st)"

definition click_next ::
  "('srv \<Rightarrow> string \<times> int \<times> WizardProfile \<Rightarrow> 'srv \<times> StepResponse option) \<Rightarrow>
     'srv \<Rightarrow> WizardState \<Rightarrow> 'srv \<times> WizardState" where
  "click_next api srv st = (if next_disabled st then (srv, st) else handleNext api srv st)"

text \<open>The Back button: \<open>disabled={currentStep === 1}\<close>, \<open>onClick={handleBack}\<close>.\<close>

definition click_back :: "WizardState \<Rightarrow> WizardState" where
  "click_back st = (if currentStep st = 1 then st else handleBack st)"

section \<open>stores/componentStore.ts\<close>

text \<open>
  \<open>interface ComponentState\<close>. The compare list holds component ids. The actions
  modelled are the three that write \<open>compareList\<close>; no other action of the store names
  that field, and the store is not persisted. Components, categories and filters are
  not inspected by these actions and stay type parameters.
\<close>

record ('c, 'k, 'f) ComponentState = StoreStatus +
  components :: "'c list"
  categories :: "'k list"
  selectedComponents :: "'c list"
  compareList :: "int list"
  filters :: 'f
  totalPages :: int
  total :: int

definition initial_components :: "'f \<Rightarrow> ('c, 'k, 'f) ComponentState" where
  "initial_components defaultFilters =
     \<lparr>isLoading = False, error = None, components = [], categories = [],
      selectedComponents = [], compareList = [], filters = defaultFilters,
      totalPages = 0, total = 0\<rparr>"

definition addToCompare :: "('c, 'k, 'f) ComponentState \<Rightarrow> int \<Rightarrow> ('c, 'k, 'f) ComponentState" where
  "addToCompare state componentId =
     (if length (compareList state) \<ge> 5 then state
      else if componentId \<in> set (compareList state) then state
      else state\<lparr>compareList := compareList state @ [componentId]\<rparr>)"

definition removeFromCompare :: "('c, 'k, 'f) ComponentState \<Rightarrow> int \<Rightarrow> ('c, 'k, 'f) ComponentState" where
  "removeFromCompare state componentId =
     state\<lparr>compareList := filter (\<lambda>i. i \<noteq> componentId) (compareList state)\<rparr>"

definition clearCompare :: "('c, 'k, 'f) ComponentState \<Rightarrow> ('c, 'k, 'f) ComponentState" where
  "clearCompare state = state\<lparr>compareList := []\<rparr>"

text \<open>A user's run of compare actions, applied in order.\<close>

datatype CompareAction = AddToCompare int | RemoveFromCompare int | ClearCompare

fun compare_action :: "('c, 'k, 'f) ComponentState \<Rightarrow> CompareAction \<Rightarrow> ('c, 'k, 'f) ComponentState" where
  "compare_action state (AddToCompare i) = addToCompare state i"
| "compare_action state (RemoveFromCompare i) = removeFromCompare state i"
| "compare_action state ClearCompare = clearCompare state"

definition run_compare :: "('c, 'k, 'f) ComponentState \<Rightarrow> CompareAction list \<Rightarrow> ('c, 'k, 'f) ComponentState" where
  "run_compare state actions = foldl compare_action state actions"

section \<open>pages/ComparisonPage.tsx\<close>

text \<open>
  The page keeps \<open>comparison\<close>, \<open>isLoading\<close> and \<open>error\<close> in component state.
  \<open>fetchComparison\<close> posts the compare list to \<open>/comparison/compare\<close>; the
  request is the list of ids.
\<close>

record 'd ComparisonPageState = StoreStatus +
  comparison :: "'d option"

definition fetchComparison ::
  "('srv \<Rightarrow> int list \<Rightarrow> 'srv \<times> 'd option) \<Rightarrow> 'srv \<Rightarrow> int list \<Rightarrow>
     'd ComparisonPageState \<Rightarrow> 'srv \<times> 'd ComparisonPageState" where
  "fetchComparison api srv compare_list page =
     (let page1 = page\<lparr>isLoading := True, error := None\<rparr> in
      case api srv compare_list of
        (srv', Some d) \<Rightarrow> (srv', page1\<lparr>comparison := Some d, isLoading := False\<rparr>)
      | (srv', None) \<Rightarrow>
          (srv', page1\<lparr>error := Some ''Failed to load comparison'', isLoading := False\<rparr>))"

text \<open>The effect on \<open>[compareList]\<close>: fetch when at least two ids are selected.\<close>

definition comparison_effect ::
  "('srv \<Rightarrow> int list \<Rightarrow> 'srv \<times> 'd option) \<Rightarrow> 'srv \<Rightarrow> int list \<Rightarrow>
     'd ComparisonPageState \<Rightarrow> 'srv \<times> 'd ComparisonPageState" where
  "comparison_effect api srv compare_list page =
     (if length compare_list \<ge> 2 then fetchComparison api srv compare_list page
      else (srv, page))"

text \<open>
  What the page renders: with fewer than two ids the early return shows the
  "Select at least 2 components" message and nothing else; otherwise the comparison
  view, whose body is the spinner, the error with its Retry button, the table, or nothing.
\<close>

datatype ComparisonView = SelectAtLeastTwo nat | Spinner | ErrorWithRetry | Table | Blank

definition comparison_render :: "int list \<Rightarrow> 'd ComparisonPageState \<Rightarrow> ComparisonView" where
  "comparison_render compare_list page =
     (if length compare_list < 2 then SelectAtLeastTwo (length compare_list)
      else if isLoading page then Spinner
      else if truthy (error page) then ErrorWithRetry
      else if comparison page \<noteq> None then Table
      else Blank)"

text \<open>The Retry button runs \<open>fetchComparison\<close>; it can be clicked only where it is rendered.\<close>

definition click_retry ::
  "('srv \<Rightarrow> int list \<Rightarrow> 'srv \<times> 'd option) \<Rightarrow> 'srv \<Rightarrow> int list \<Rightarrow>
     'd ComparisonPageState \<Rightarrow> 'srv \<times> 'd ComparisonPageState" where
  "click_retry api srv compare_list page =
     (case comparison_render compare_list page of
        ErrorWithRetry \<Rightarrow> fetchComparison api srv compare_list page
      | _ \<Rightarrow> (srv, page))"

text \<open>The two places of the page that call \<open>fetchComparison\<close>.\<close>

datatype ComparisonEvent = CompareListChanged | RetryClicked

fun comparison_event ::
  "('srv \<Rightarrow> int list \<Rightarrow> 'srv \<times> 'd option) \<Rightarrow> 'srv \<Rightarrow> int list \<Rightarrow>
     'd ComparisonPageState \<Rightarrow> ComparisonEvent \<Rightarrow> 'srv \<times> 'd ComparisonPageState" where
  "comparison_event api srv compare_list page CompareListChanged =
     comparison_effect api srv compare_list page"
| "comparison_event api srv compare_list page RetryClicked =
     click_retry api srv compare_list page"

section \<open>stores/setupStore.ts\<close>

datatype Role = User | Assistant

record ChatMessage =
  role :: Role
  content :: string

text \<open>
  The body of \<open>POST /recommendations/chat\<close> that \<open>recommendationsApi.chat\<close> sends:
  \<open>{ setup_id, message, history }\<close>.
\<close>

record ChatRequest =
  setup_id :: string
  message :: string
  history :: "ChatMessage list"

text \<open>
  \<open>interface SetupState\<close>. Recommendations and pricing are stored as the service
  returned them and stay type parameters.
\<close>

record ('r, 'p) SetupState = StoreStatus +
  recommendations :: "'r option"
  pricing :: "'p option"
  chatHistory :: "ChatMessage list"

definition initial_setup :: "('r, 'p) SetupState" where
  "initial_setup = \<lparr>isLoading = False, error = None, recommendations = None, pricing = None,
     chatHistory = []\<rparr>"

text \<open>\<open>generateRecommendations\<close>: the request is the setup id with the focus areas.\<close>

definition generateRecommendations ::
  "('srv \<Rightarrow> string \<times> string list option \<Rightarrow> 'srv \<times> 'r option) \<Rightarrow> 'srv \<Rightarrow>
     ('r, 'p) SetupState \<Rightarrow> string \<Rightarrow> string list option \<Rightarrow> 'srv \<times> ('r, 'p) SetupState" where
  "generateRecommendations api srv st sid focusAreas =
     (let st1 = st\<lparr>isLoading := True, error := None\<rparr> in
      case api srv (sid, focusAreas) of
        (srv', Some d) \<Rightarrow> (srv', st1\<lparr>recommendations := Some d, isLoading := False\<rparr>)
      | (srv', None) \<Rightarrow>
          (srv', st1\<lparr>error := Some ''Failed to generate recommendations'', isLoading := False\<rparr>))"

text \<open>
  The request \<open>sendChatMessage\<close> builds: the transcript read from the store before the
  new message is added, copied message by message, with the new message beside it.
\<close>

definition chat_request :: "('r, 'p) SetupState \<Rightarrow> string \<Rightarrow> string \<Rightarrow> ChatRequest" where
  "chat_request st sid msg =
     \<lparr>setup_id = sid, message = msg,
      history = map (\<lambda>m. \<lparr>role = role m, content = content m\<rparr>) (chatHistory st)\<rparr>"

text \<open>
  \<open>sendChatMessage\<close> returns the assistant's text beside the store. The user message
  is stored before the call; the \<open>catch\<close> branch stores and returns a fixed apology.
\<close>

definition sendChatMessage ::
  "('srv \<Rightarrow> ChatRequest \<Rightarrow> 'srv \<times> string option) \<Rightarrow> 'srv \<Rightarrow> ('r, 'p) SetupState \<Rightarrow>
     string \<Rightarrow> string \<Rightarrow> 'srv \<times> ('r, 'p) SetupState \<times> string" where
  "sendChatMessage api srv st sid msg =
     (let newHistory = chatHistory st @ [\<lparr>role = User, content = msg\<rparr>];
          st1 = st\<lparr>chatHistory := newHistory, isLoading := True\<rparr>
      in case api srv (chat_request st sid msg) of
        (srv', Some assistantMessage) \<Rightarrow>
          (srv',
           st1\<lparr>chatHistory := newHistory @ [\<lparr>role = Assistant, content = assistantMessage\<rparr>],
               isLoading := False\<rparr>,
           assistantMessage)
      | (srv', None) \<Rightarrow>
          (let errorMessage = ''Sorry, I encountered an error. Please try again.'' in
           (srv',
            st1\<lparr>chatHistory := newHistory @ [\<lparr>role = Assistant, content = errorMessage\<rparr>],
                isLoading := False, error := Some ''Chat request failed''\<rparr>,
            errorMessage)))"

definition clearChat :: "('r, 'p) SetupState \<Rightarrow> ('r, 'p) SetupState" where
  "clearChat st = st\<lparr>chatHistory := []\<rparr>"

section \<open>Chat operation of the service\<close>

text \<open>
  Modelled from the spec: the service's \<open>chat(setup_id, message, history)\<close> of section
  4.2; the back end is not among the sources. It "appends the message to a supplied
  transcript, forwards the transcript and message to the reasoning service, and returns
  its response verbatim as the assistant message; does not persist transcript
  server-side". The reasoning service is a parameter; it may read the service's store
  and the setup id, and \<open>None\<close> is its failure. The store is returned as it was.
\<close>

definition chat ::
  "('db \<Rightarrow> string \<Rightarrow> ChatMessage list \<Rightarrow> string \<Rightarrow> string option) \<Rightarrow> 'db \<Rightarrow> ChatRequest \<Rightarrow>
     'db \<times> string option" where
  "chat reasoning db q =
     (db,
      reasoning db (setup_id q) (history q @ [\<lparr>role = User, content = message q\<rparr>]) (message q))"

section \<open>pages/SetupPage.tsx\<close>

text \<open>
  The page reads \<open>setupId\<close> from the route, \<open>wizardCompleted\<close> from the wizard store
  and the setup store. It calls store actions without awaiting them; the model lists
  the actions an event of the page starts, in order.
\<close>

datatype SetupCall = GenerateRecommendations string | FetchPricing string

datatype SetupTab = RecommendationsTab | ChatTab | ExportTab

text \<open>
  The effect that runs after every render whose dependencies changed; it runs above the
  early return, so also on a page that shows the gate.
\<close>

definition setup_effect :: "string option \<Rightarrow> WizardState \<Rightarrow> ('r, 'p) SetupState \<Rightarrow> SetupCall list" where
  "setup_effect routeId wz ss =
     (case routeId of
        None \<Rightarrow> []
      | Some sid \<Rightarrow>
          if sid \<noteq> [] \<and> wizardCompleted wz \<and> recommendations ss = None
          then [GenerateRecommendations sid, FetchPricing sid]
          else [])"

text \<open>
  What the page renders: the "Wizard Not Complete" gate by early return, or the setup
  view. On the recommendations tab the view shows the Refresh button (disabled while
  loading) and, in place of the list, a spinner, the error with its Retry button, the
  list, or nothing.
\<close>

datatype SetupView = WizardNotComplete | SetupShown

definition setup_render :: "WizardState \<Rightarrow> SetupView" where
  "setup_render wz = (if \<not> wizardCompleted wz then WizardNotComplete else SetupShown)"

definition retry_rendered :: "WizardState \<Rightarrow> ('r, 'p) SetupState \<Rightarrow> SetupTab \<Rightarrow> bool" where
  "retry_rendered wz ss tab =
     (setup_render wz = SetupShown \<and> tab = RecommendationsTab \<and>
      \<not> (isLoading ss \<and> recommendations ss = None) \<and> truthy (error ss))"

definition refresh_enabled :: "WizardState \<Rightarrow> ('r, 'p) SetupState \<Rightarrow> SetupTab \<Rightarrow> bool" where
  "refresh_enabled wz ss tab =
     (setup_render wz = SetupShown \<and> tab = RecommendationsTab \<and> \<not> isLoading ss)"

text \<open>
  Both buttons run \<open>setupId && generateRecommendations(setupId)\<close>; a button that is
  not rendered, or is disabled, runs nothing.
\<close>

definition generate_if_setup :: "string option \<Rightarrow> SetupCall list" where
  "generate_if_setup routeId =
     (case routeId of
        None \<Rightarrow> []
      | Some sid \<Rightarrow> if sid \<noteq> [] then [GenerateRecommendations sid] else [])"

text \<open>The three places of the page that call \<open>generateRecommendations\<close>.\<close>

datatype SetupEvent = EffectRun | RetryClick | RefreshClick

fun setup_event ::
  "string option \<Rightarrow> WizardState \<Rightarrow> ('r, 'p) SetupState \<Rightarrow> SetupTab \<Rightarrow> SetupEvent \<Rightarrow> SetupCall list" where
  "setup_event routeId wz ss tab EffectRun = setup_effect routeId wz ss"
| "setup_event routeId wz ss tab RetryClick =
     (if retry_rendered wz ss tab then generate_if_setup routeId else [])"
| "setup_event routeId wz ss tab RefreshClick =
     (if refresh_enabled wz ss tab then generate_if_setup routeId else [])"

section \<open>Example inputs\<close>

text \<open>A service that rejects every request.\<close>

definition rejecting :: "'q \<Rightarrow> 'a option" where
  "rejecting q = None"

text \<open>A wizard on step 3 of the setup \<open>s1\<close>, use case chosen, arm type not chosen.\<close>

definition wizard_at_step3 :: WizardState where
  "wizard_at_step3 = \<lparr>isLoading = False, error = None, setupId = Some ''s1'', currentStep = 3,
     profile = \<lparr>experience = Some Beginner, budget = Some 500, use_case = Some Learning,
       compute_platform = None, camera_preference = None, arm_type = None\<rparr>,
     wizardCompleted = False\<rparr>"

text \<open>The same wizard after the service has reported completion.\<close>

definition wizard_done :: WizardState where
  "wizard_done = wizard_at_step3\<lparr>currentStep := 5, wizardCompleted := True\<rparr>"

text \<open>A component store as created, and six additions, one of them repeated.\<close>

definition fresh_components :: "(unit, unit, unit) ComponentState" where
  "fresh_components = initial_components ()"

definition six_adds :: "CompareAction list" where
  "six_adds = [AddToCompare 1, AddToCompare 2, AddToCompare 2, AddToCompare 3,
     AddToCompare 4, AddToCompare 5, AddToCompare 6]"

text \<open>A comparison page and a setup store as created.\<close>

definition fresh_page :: "unit ComparisonPageState" where
  "fresh_page = \<lparr>isLoading = False, error = None, comparison = None\<rparr>"

definition fresh_setup :: "(unit, unit) SetupState" where
  "fresh_setup = initial_setup"

text \<open>A chat service that answers with the message it was sent, and a transcript of one turn.\<close>

definition echo :: "ChatRequest \<Rightarrow> string option" where
  "echo q = Some (message q)"

definition one_turn :: "(unit, unit) SetupState" where
  "one_turn = fresh_setup\<lparr>chatHistory :=
     [\<lparr>role = User, content = ''hello''\<rparr>, \<lparr>role = Assistant, content = ''hi''\<rparr>]\<rparr>"

text \<open>
  A reasoning service that answers with the first message of the transcript it is given;
  it keeps nothing, so what it recalls is what the request carried.
\<close>

definition recall :: "unit \<Rightarrow> string \<Rightarrow> ChatMessage list \<Rightarrow> string \<Rightarrow> string option" where
  "recall db sid transcript msg = (case transcript of [] \<Rightarrow> None | m # ms \<Rightarrow> Some (content m))"

section \<open>Properties of the wizard store\<close>

text \<open>
  Claim C8. For every target step outside the range 1 to 5, \<open>goToStep\<close> leaves the
  wizard store exactly as it was; for every target step from 1 to 5 it sets
  \<open>currentStep\<close> to that step and changes no other field, so \<open>setupId\<close>,
  \<open>profile\<close> and \<open>wizardCompleted\<close> (and \<open>isLoading\<close>, \<open>error\<close>) keep their values.
\<close>

theorem goToStep_range:
  "((step < 1 \<or> 5 < step) \<longrightarrow> goToStep st step = st) \<and>
   ((1 \<le> step \<and> step \<le> 5) \<longrightarrow>
      goToStep st step = st\<lparr>currentStep := step\<rparr> \<and>
      currentStep (goToStep st step) = step \<and>
      setupId (goToStep st step) = setupId st \<and>
      profile (goToStep st step) = profile st \<and>
      wizardCompleted (goToStep st step) = wizardCompleted st \<and>
      isLoading (goToStep st step) = isLoading st \<and>
      error (goToStep st step) = error st)"
  by (auto simp: goToStep_def)

theorem goToStep_range_witness:
  "goToStep wizard_at_step3 0 = wizard_at_step3 \<and>
   goToStep wizard_at_step3 6 = wizard_at_step3 \<and>
   goToStep wizard_at_step3 2 = wizard_at_step3\<lparr>currentStep := 2\<rparr> \<and>
   setupId (goToStep wizard_at_step3 2) = Some ''s1'' \<and>
   profile (goToStep wizard_at_step3 2) = profile wizard_at_step3 \<and>
   wizardCompleted (goToStep wizard_at_step3 2) = False"
  using goToStep_range [of 0 wizard_at_step3] goToStep_range [of 6 wizard_at_step3]
    goToStep_range [of 2 wizard_at_step3]
  by (simp add: wizard_at_step3_def)

lemma updateStep_no_setup:
  "\<not> truthy (setupId st) \<Longrightarrow>
   updateStep api srv st step data = (srv, st\<lparr>error := Some ''No active setup''\<rparr>)"
  by (auto simp: updateStep_def truthy_def split: option.splits)

lemma updateStep_rejected:
  "setupId st = Some sid \<Longrightarrow> sid \<noteq> [] \<Longrightarrow> snd (api srv (sid, step, data)) = None \<Longrightarrow>
   snd (updateStep api srv st step data) =
     st\<lparr>isLoading := False, error := Some ''Failed to save step''\<rparr>"
  by (auto simp: updateStep_def Let_def split: option.splits prod.splits)

text \<open>
  Claim C4. For every failing save of a wizard step (no active setup, or the call to the
  service fails), the stored answers are preserved: \<open>setupId\<close>, \<open>currentStep\<close>,
  \<open>profile\<close> and \<open>wizardCompleted\<close> are unchanged after \<open>updateStep\<close> returns, and
  the store differs from the one before only in \<open>error\<close> (no active setup) or in
  \<open>error\<close> and \<open>isLoading\<close> (failed call).
\<close>

theorem updateStep_failure_keeps_answers:
  assumes "\<not> truthy (setupId st) \<or>
           (\<exists>sid. setupId st = Some sid \<and> snd (api srv (sid, step, data)) = None)"
  shows "setupId (snd (updateStep api srv st step data)) = setupId st \<and>
         currentStep (snd (updateStep api srv st step data)) = currentStep st \<and>
         profile (snd (updateStep api srv st step data)) = profile st \<and>
         wizardCompleted (snd (updateStep api srv st step data)) = wizardCompleted st \<and>
         (snd (updateStep api srv st step data) = st\<lparr>error := Some ''No active setup''\<rparr> \<or>
          snd (updateStep api srv st step data) =
            st\<lparr>isLoading := False, error := Some ''Failed to save step''\<rparr>)"
proof (cases "truthy (setupId st)")
  case False
  then show ?thesis by (simp add: updateStep_no_setup)
next
  case True
  with assms obtain sid where s: "setupId st = Some sid" "snd (api srv (sid, step, data)) = None"
    by auto
  from True s have "sid \<noteq> []" by (simp add: truthy_def)
  with s show ?thesis by (simp add: updateStep_rejected)
qed

theorem updateStep_failure_keeps_answers_witness:
  "profile (snd (updateStep (recording rejecting) [] wizard_at_step3 3 empty_profile)) =
     profile wizard_at_step3 \<and>
   currentStep (snd (updateStep (recording rejecting) [] wizard_at_step3 3 empty_profile)) = 3 \<and>
   setupId (snd (updateStep (recording rejecting) [] wizard_at_step3 3 empty_profile)) =
     Some ''s1'' \<and>
   wizardCompleted (snd (updateStep (recording rejecting) [] wizard_at_step3 3 empty_profile)) =
     False \<and>
   error (snd (updateStep (recording rejecting) [] wizard_at_step3 3 empty_profile)) =
     Some ''Failed to save step'' \<and>
   profile (snd (updateStep (recording rejecting) [] initial_wizard 1 empty_profile)) =
     empty_profile \<and>
   error (snd (updateStep (recording rejecting) [] initial_wizard 1 empty_profile)) =
     Some ''No active setup''"
  using
    updateStep_failure_keeps_answers [where api = "recording rejecting" and srv = "[]"
      and st = wizard_at_step3 and step = 3 and data = empty_profile]
    updateStep_failure_keeps_answers [where api = "recording rejecting" and srv = "[]"
      and st = initial_wizard and step = 1 and data = empty_profile]
  by (simp add: wizard_at_step3_def initial_wizard_def truthy_def updateStep_def recording_def
      rejecting_def Let_def)

section \<open>Properties of the wizard page\<close>

lemma click_next_disabled: "next_disabled st \<Longrightarrow> click_next api srv st = (srv, st)"
  by (simp add: click_next_def)

lemma click_next_enabled:
  "\<not> next_disabled st \<Longrightarrow>
   click_next api srv st = updateStep api srv st (currentStep st) (stepData st)"
  by (simp add: click_next_def handleNext_def)

lemma updateStep_recorded:
  "fst (updateStep (recording respond) reqs st step data) =
     (case setupId st of
        None \<Rightarrow> reqs
      | Some sid \<Rightarrow> if sid = [] then reqs else reqs @ [(sid, step, data)])"
  by (simp add: updateStep_def recording_def Let_def split: option.splits)

lemma canProceed_iff:
  "canProceed st \<longleftrightarrow>
     (currentStep st = 1 \<and> experience (profile st) \<noteq> None \<or>
      currentStep st = 2 \<and> budget (profile st) \<noteq> None \<or>
      currentStep st = 3 \<and> use_case (profile st) \<noteq> None \<or>
      currentStep st = 4 \<and> compute_platform (profile st) \<noteq> None \<or>
      currentStep st = 5 \<and> camera_preference (profile st) \<noteq> None)"
  by (simp add: canProceed_def)

text \<open>
  Claim C6, as the code has it. A step write is submitted by the Next button only on a
  step from 1 to 5 whose gate field is present in the profile: step 1 needs
  \<open>experience\<close>, step 2 \<open>budget\<close>, step 3 \<open>use_case\<close>, step 4 \<open>compute_platform\<close>,
  step 5 \<open>camera_preference\<close>; the button is disabled otherwise (and while loading), and a
  disabled button changes nothing and sends nothing. On step 3 the arm type is sent
  with the use case but the gate does not ask for it. The write that is sent is the one
  request (setup id, current step, step data), and the gate field is defined in it.
\<close>

theorem next_gate:
  "(next_disabled st \<longleftrightarrow>
      isLoading st \<or>
      \<not> (currentStep st = 1 \<and> experience (profile st) \<noteq> None \<or>
         currentStep st = 2 \<and> budget (profile st) \<noteq> None \<or>
         currentStep st = 3 \<and> use_case (profile st) \<noteq> None \<or>
         currentStep st = 4 \<and> compute_platform (profile st) \<noteq> None \<or>
         currentStep st = 5 \<and> camera_preference (profile st) \<noteq> None)) \<and>
   (next_disabled st \<longrightarrow> click_next api srv st = (srv, st)) \<and>
   (fst (click_next (recording respond) [] st) \<noteq> [] \<longrightarrow>
      \<not> next_disabled st \<and>
      (\<exists>sid. setupId st = Some sid \<and>
         fst (click_next (recording respond) [] st) = [(sid, currentStep st, stepData st)]) \<and>
      (currentStep st = 1 \<and> experience (stepData st) \<noteq> None \<or>
       currentStep st = 2 \<and> budget (stepData st) \<noteq> None \<or>
       currentStep st = 3 \<and> use_case (stepData st) \<noteq> None \<or>
       currentStep st = 4 \<and> compute_platform (stepData st) \<noteq> None \<or>
       currentStep st = 5 \<and> camera_preference (stepData st) \<noteq> None))"
proof (intro conjI impI)
  show "next_disabled st \<longleftrightarrow>
      isLoading st \<or>
      \<not> (currentStep st = 1 \<and> experience (profile st) \<noteq> None \<or>
         currentStep st = 2 \<and> budget (profile st) \<noteq> None \<or>
         currentStep st = 3 \<and> use_case (profile st) \<noteq> None \<or>
         currentStep st = 4 \<and> compute_platform (profile st) \<noteq> None \<or>
         currentStep st = 5 \<and> camera_preference (profile st) \<noteq> None)"
    unfolding next_disabled_def canProceed_iff by blast
next
  assume "next_disabled st"
  then show "click_next api srv st = (srv, st)" by (rule click_next_disabled)
next
  assume sent: "fst (click_next (recording respond) [] st) \<noteq> []"
  then show en: "\<not> next_disabled st" by (auto simp: click_next_disabled)
  from en have eq: "click_next (recording respond) [] st =
      updateStep (recording respond) [] st (currentStep st) (stepData st)"
    by (rule click_next_enabled)
  from sent show "\<exists>sid. setupId st = Some sid \<and>
         fst (click_next (recording respond) [] st) = [(sid, currentStep st, stepData st)]"
    unfolding eq updateStep_recorded by (auto split: option.splits if_splits)
  from en have "canProceed st" by (simp add: next_disabled_def)
  then show "currentStep st = 1 \<and> experience (stepData st) \<noteq> None \<or>
       currentStep st = 2 \<and> budget (stepData st) \<noteq> None \<or>
       currentStep st = 3 \<and> use_case (stepData st) \<noteq> None \<or>
       currentStep st = 4 \<and> compute_platform (stepData st) \<noteq> None \<or>
       currentStep st = 5 \<and> camera_preference (stepData st) \<noteq> None"
    unfolding canProceed_iff by (auto simp: stepData_def empty_profile_def)
qed

theorem next_gate_witness:
  "\<not> next_disabled wizard_at_step3 \<and>
   fst (click_next (recording rejecting) [] wizard_at_step3) =
     [(''s1'', 3, stepData wizard_at_step3)] \<and>
   use_case (stepData wizard_at_step3) \<noteq> None \<and>
   next_disabled (wizard_at_step3\<lparr>currentStep := 4\<rparr>) \<and>
   click_next (recording rejecting) [] (wizard_at_step3\<lparr>currentStep := 4\<rparr>) =
     ([], wizard_at_step3\<lparr>currentStep := 4\<rparr>)"
proof -
  have sent: "fst (click_next (recording rejecting) [] wizard_at_step3) \<noteq> []"
    by (simp add: wizard_at_step3_def next_disabled_def canProceed_def click_next_def
        handleNext_def updateStep_def recording_def rejecting_def Let_def)
  have step: "currentStep wizard_at_step3 = 3" and sid: "setupId wizard_at_step3 = Some ''s1''"
    by (simp_all add: wizard_at_step3_def)
  from next_gate [where st = wizard_at_step3 and respond = rejecting
      and api = "recording rejecting" and srv = "[]"] sent
  have g: "\<not> next_disabled wizard_at_step3"
    and r: "\<exists>sid. setupId wizard_at_step3 = Some sid \<and>
         fst (click_next (recording rejecting) [] wizard_at_step3) =
           [(sid, currentStep wizard_at_step3, stepData wizard_at_step3)]"
    and f: "currentStep wizard_at_step3 = 1 \<and> experience (stepData wizard_at_step3) \<noteq> None \<or>
       currentStep wizard_at_step3 = 2 \<and> budget (stepData wizard_at_step3) \<noteq> None \<or>
       currentStep wizard_at_step3 = 3 \<and> use_case (stepData wizard_at_step3) \<noteq> None \<or>
       currentStep wizard_at_step3 = 4 \<and> compute_platform (stepData wizard_at_step3) \<noteq> None \<or>
       currentStep wizard_at_step3 = 5 \<and> camera_preference (stepData wizard_at_step3) \<noteq> None"
    by blast+
  from r sid step have r': "fst (click_next (recording rejecting) [] wizard_at_step3) =
     [(''s1'', 3, stepData wizard_at_step3)]" by auto
  from f step have f': "use_case (stepData wizard_at_step3) \<noteq> None" by simp
  have off: "next_disabled (wizard_at_step3\<lparr>currentStep := 4\<rparr>)"
    by (simp add: wizard_at_step3_def next_disabled_def canProceed_def)
  with next_gate [where st = "wizard_at_step3\<lparr>currentStep := 4\<rparr>"
      and api = "recording rejecting" and srv = "[]" and respond = rejecting]
  have n: "click_next (recording rejecting) [] (wizard_at_step3\<lparr>currentStep := 4\<rparr>) =
     ([], wizard_at_step3\<lparr>currentStep := 4\<rparr>)" by blast
  from g r' f' off n show ?thesis by blast
qed

text \<open>
  Claim C6 as stated fails on step 3: with a use case chosen and no arm type, the Next
  button is enabled, and a click submits the step-3 write whose \<open>arm_type\<close> is
  undefined.
\<close>

theorem step3_without_arm_type:
  "\<not> next_disabled wizard_at_step3 \<and>
   currentStep wizard_at_step3 = 3 \<and>
   arm_type (profile wizard_at_step3) = None \<and>
   click_next (recording rejecting) [] wizard_at_step3 =
     ([(''s1'', 3, \<lparr>experience = None, budget = None, use_case = Some Learning,
          compute_platform = None, camera_preference = None, arm_type = None\<rparr>)],
      wizard_at_step3\<lparr>isLoading := False, error := Some ''Failed to save step''\<rparr>)"
  by (simp add: wizard_at_step3_def next_disabled_def canProceed_def click_next_def handleNext_def
      updateStep_def stepData_def empty_profile_def recording_def rejecting_def Let_def)

section \<open>Properties of the setup page\<close>

text \<open>
  Claim C7. Recommendation generation is requested only for a completed wizard: whatever
  the page does (the effect after a render, a click on Retry, a click on Refresh),
  \<open>generateRecommendations\<close> is called only when \<open>wizardCompleted\<close> is true and the
  route carries a non-empty setup id, which is the id passed; and a page whose wizard is
  not complete renders the "Wizard Not Complete" gate and calls nothing.
\<close>

theorem setup_gate:
  "(GenerateRecommendations sid \<in> set (setup_event routeId wz ss tab ev) \<longrightarrow>
      wizardCompleted wz \<and> routeId = Some sid \<and> sid \<noteq> []) \<and>
   (\<not> wizardCompleted wz \<longrightarrow>
      setup_render wz = WizardNotComplete \<and> setup_event routeId wz ss tab ev = [])"
  by (cases ev)
    (auto simp: setup_effect_def setup_render_def retry_rendered_def refresh_enabled_def
      generate_if_setup_def split: option.splits if_splits)

theorem setup_gate_witness:
  "GenerateRecommendations ''s1'' \<in>
     set (setup_event (Some ''s1'') wizard_done fresh_setup RecommendationsTab EffectRun) \<and>
   wizardCompleted wizard_done \<and>
   setup_render wizard_at_step3 = WizardNotComplete \<and>
   setup_event (Some ''s1'') wizard_at_step3 fresh_setup RecommendationsTab EffectRun = [] \<and>
   setup_event (Some ''s1'') wizard_at_step3 fresh_setup RecommendationsTab RefreshClick = []"
proof -
  have called: "GenerateRecommendations ''s1'' \<in>
     set (setup_event (Some ''s1'') wizard_done fresh_setup RecommendationsTab EffectRun)"
    by (simp add: wizard_done_def wizard_at_step3_def fresh_setup_def initial_setup_def
        setup_effect_def)
  with setup_gate [where sid = "''s1''" and routeId = "Some ''s1''" and wz = wizard_done
      and ss = fresh_setup and tab = RecommendationsTab and ev = EffectRun]
  have completed_wz: "wizardCompleted wizard_done" by blast
  have open_wizard: "\<not> wizardCompleted wizard_at_step3" by (simp add: wizard_at_step3_def)
  with setup_gate [where routeId = "Some ''s1''" and wz = wizard_at_step3
      and ss = fresh_setup and tab = RecommendationsTab and ev = EffectRun]
  have e: "setup_render wizard_at_step3 = WizardNotComplete"
     "setup_event (Some ''s1'') wizard_at_step3 fresh_setup RecommendationsTab EffectRun = []"
    by blast+
  from open_wizard setup_gate [where routeId = "Some ''s1''" and wz = wizard_at_step3
      and ss = fresh_setup and tab = RecommendationsTab and ev = RefreshClick]
  have c: "setup_event (Some ''s1'') wizard_at_step3 fresh_setup RecommendationsTab RefreshClick = []"
    by blast
  from called completed_wz e c show ?thesis by blast
qed

section \<open>Properties of the compare list\<close>

lemma addToCompare_list:
  "compareList (addToCompare s i) =
     (if length (compareList s) \<ge> 5 \<or> i \<in> set (compareList s) then compareList s
      else compareList s @ [i])"
  by (simp add: addToCompare_def)

lemma compare_action_inv:
  "distinct (compareList s) \<and> length (compareList s) \<le> 5 \<Longrightarrow>
   distinct (compareList (compare_action s a)) \<and> length (compareList (compare_action s a)) \<le> 5"
proof (cases a)
  case (AddToCompare i)
  assume "distinct (compareList s) \<and> length (compareList s) \<le> 5"
  with AddToCompare show ?thesis by (simp add: addToCompare_list)
next
  case (RemoveFromCompare i)
  assume inv: "distinct (compareList s) \<and> length (compareList s) \<le> 5"
  have "length (filter (\<lambda>j. j \<noteq> i) (compareList s)) \<le> length (compareList s)"
    by (rule length_filter_le)
  with inv have "length (filter (\<lambda>j. j \<noteq> i) (compareList s)) \<le> 5" by linarith
  with inv RemoveFromCompare show ?thesis by (simp add: removeFromCompare_def)
next
  case ClearCompare
  then show ?thesis by (simp add: clearCompare_def)
qed

lemma run_compare_inv:
  "distinct (compareList s) \<and> length (compareList s) \<le> 5 \<Longrightarrow>
   distinct (compareList (run_compare s actions)) \<and> length (compareList (run_compare s actions)) \<le> 5"
  unfolding run_compare_def
proof (induction actions arbitrary: s)
  case Nil
  then show ?case by simp
next
  case (Cons a actions)
  from Cons.prems have "distinct (compareList (compare_action s a)) \<and>
      length (compareList (compare_action s a)) \<le> 5"
    by (rule compare_action_inv)
  then show ?case using Cons.IH by simp
qed

lemma reachable_compare_inv:
  "compareList s0 = [] \<Longrightarrow>
   distinct (compareList (run_compare s0 actions)) \<and>
   length (compareList (run_compare s0 actions)) \<le> 5"
  by (rule run_compare_inv) simp

lemma fetchComparison_recorded:
  "fst (fetchComparison (recording respond) reqs cl page) = reqs @ [cl]"
  by (simp add: fetchComparison_def recording_def Let_def split: option.splits)

lemma comparison_event_recorded:
  "fst (comparison_event (recording respond) [] cl page ev) = [] \<or>
   (fst (comparison_event (recording respond) [] cl page ev) = [cl] \<and> 2 \<le> length cl)"
  by (cases ev)
    (auto simp: comparison_effect_def click_retry_def comparison_render_def
      fetchComparison_recorded split: ComparisonView.splits if_splits)

lemma comparison_event_gate:
  "length cl < 2 \<Longrightarrow> comparison_event api srv cl page ev = (srv, page)"
  by (cases ev) (auto simp: comparison_effect_def click_retry_def comparison_render_def)


text \<open>
  Claim C2. A comparison is performed only over 2 to 5 distinct component identifiers.
  Starting from an empty compare list, after any run of compare actions the list is
  distinct and has at most 5 entries, and every request the comparison page sends (by
  its effect or by Retry) carries that list and at least 2 ids; with fewer than 2 ids
  the page sends nothing and shows the "Select at least 2 components" message.
  \<open>addToCompare\<close> never grows a list beyond 5 entries: on a list of 5 it rejects
  the addition and returns the state as it is.
\<close>

theorem comparison_size:
  assumes "compareList s0 = []"
  shows
  "(\<forall>ids \<in> set (fst (comparison_event (recording respond) []
        (compareList (run_compare s0 actions)) page ev)).
      2 \<le> length ids \<and> length ids \<le> 5 \<and> distinct ids) \<and>
   (length cl < 2 \<longrightarrow>
      comparison_event api srv cl page ev = (srv, page) \<and>
      comparison_render cl page = SelectAtLeastTwo (length cl)) \<and>
   (length (compareList s) \<le> 5 \<longrightarrow> length (compareList (addToCompare s i)) \<le> 5) \<and>
   (5 \<le> length (compareList s) \<longrightarrow> addToCompare s i = s) \<and>
   length (compareList (run_compare s0 actions)) \<le> 5"
proof (intro conjI impI ballI)
  fix ids
  assume "ids \<in> set (fst (comparison_event (recording respond) []
        (compareList (run_compare s0 actions)) page ev))"
  with comparison_event_recorded [of respond "compareList (run_compare s0 actions)" page ev]
  have "ids = compareList (run_compare s0 actions) \<and> 2 \<le> length ids"
    by auto
  with reachable_compare_inv [OF assms, of actions]
  show "2 \<le> length ids" "length ids \<le> 5" "distinct ids" by auto
next
  assume "length cl < 2"
  then show "comparison_event api srv cl page ev = (srv, page)" by (rule comparison_event_gate)
next
  assume "length cl < 2"
  then show "comparison_render cl page = SelectAtLeastTwo (length cl)"
    by (simp add: comparison_render_def)
next
  assume "length (compareList s) \<le> 5"
  then show "length (compareList (addToCompare s i)) \<le> 5" by (simp add: addToCompare_list)
next
  assume "5 \<le> length (compareList s)"
  then show "addToCompare s i = s" by (simp add: addToCompare_def)
next
  show "length (compareList (run_compare s0 actions)) \<le> 5"
    using reachable_compare_inv [OF assms, of actions] by simp
qed

lemma six_adds_list: "compareList (run_compare fresh_components six_adds) = [1, 2, 3, 4, 5]"
  by (simp add: run_compare_def six_adds_def fresh_components_def initial_components_def
      addToCompare_def)

theorem comparison_size_witness:
  "fst (comparison_event (recording rejecting) []
     (compareList (run_compare fresh_components six_adds)) fresh_page CompareListChanged) =
     [[1, 2, 3, 4, 5]] \<and>
   distinct [1, 2, 3, 4, 5 :: int] \<and>
   length (compareList (run_compare fresh_components six_adds)) \<le> 5 \<and>
   addToCompare (run_compare fresh_components six_adds) 9 = run_compare fresh_components six_adds \<and>
   comparison_event (recording rejecting) [] [7] fresh_page RetryClicked = ([], fresh_page) \<and>
   comparison_render [7] fresh_page = SelectAtLeastTwo 1"
proof -
  have start: "compareList fresh_components = []"
    by (simp add: fresh_components_def initial_components_def)
  note t = comparison_size [OF start, where actions = six_adds and respond = rejecting
      and page = fresh_page and ev = CompareListChanged and cl = "[7]"
      and api = "recording rejecting" and srv = "[]"
      and s = "run_compare fresh_components six_adds" and i = 9]
  note u = comparison_size [OF start, where actions = six_adds and respond = rejecting
      and page = fresh_page and ev = RetryClicked and cl = "[7]"
      and api = "recording rejecting" and srv = "[]"
      and s = "run_compare fresh_components six_adds" and i = 9]
  have sent: "fst (comparison_event (recording rejecting) []
     (compareList (run_compare fresh_components six_adds)) fresh_page CompareListChanged) =
     [[1, 2, 3, 4, 5]]"
    by (simp add: six_adds_list comparison_effect_def fetchComparison_recorded)
  from t have "\<forall>ids \<in> set (fst (comparison_event (recording rejecting) []
        (compareList (run_compare fresh_components six_adds)) fresh_page CompareListChanged)).
      2 \<le> length ids \<and> length ids \<le> 5 \<and> distinct ids" by blast
  with sent have dist: "distinct [1, 2, 3, 4, 5 :: int]" by simp
  from t have bound: "length (compareList (run_compare fresh_components six_adds)) \<le> 5"
    by blast
  have full: "5 \<le> length (compareList (run_compare fresh_components six_adds))"
    by (simp add: six_adds_list)
  with t have rejected:
    "addToCompare (run_compare fresh_components six_adds) 9 = run_compare fresh_components six_adds"
    by blast
  have few: "length [7::int] < 2" by simp
  with u have gate:
    "comparison_event (recording rejecting) [] [7] fresh_page RetryClicked = ([], fresh_page)"
    "comparison_render [7] fresh_page = SelectAtLeastTwo (length [7::int])"
    by blast+
  from sent dist bound rejected gate show ?thesis by simp
qed

text \<open>
  Claim C9. The compare list never contains duplicate component ids: starting from an
  empty list every run of compare actions leaves it distinct, and \<open>addToCompare\<close>
  keeps a distinct list distinct. \<open>addToCompare\<close> with an id already in the list
  returns the state unchanged, so adding twice is adding once; and for every list with
  fewer than 5 entries that does not contain the id, \<open>removeFromCompare(id)\<close> after
  \<open>addToCompare(id)\<close> gives back the original state.
\<close>

theorem compare_list_distinct:
  "(compareList s0 = [] \<longrightarrow> distinct (compareList (run_compare s0 actions))) \<and>
   (distinct (compareList s) \<longrightarrow> distinct (compareList (addToCompare s i))) \<and>
   (i \<in> set (compareList s) \<longrightarrow> addToCompare s i = s) \<and>
   addToCompare (addToCompare s i) i = addToCompare s i \<and>
   (length (compareList s) < 5 \<and> i \<notin> set (compareList s) \<longrightarrow>
      removeFromCompare (addToCompare s i) i = s \<and>
      compareList (removeFromCompare (addToCompare s i) i) = compareList s)"
proof (intro conjI impI)
  assume "compareList s0 = []"
  then show "distinct (compareList (run_compare s0 actions))"
    using reachable_compare_inv [of s0 actions] by simp
next
  assume "distinct (compareList s)"
  then show "distinct (compareList (addToCompare s i))" by (simp add: addToCompare_list)
next
  assume "i \<in> set (compareList s)"
  then show "addToCompare s i = s" by (simp add: addToCompare_def)
next
  show "addToCompare (addToCompare s i) i = addToCompare s i"
    by (simp add: addToCompare_def)
next
  assume a: "length (compareList s) < 5 \<and> i \<notin> set (compareList s)"
  then have f: "filter (\<lambda>j. j \<noteq> i) (compareList s) = compareList s"
    by (auto simp: filter_id_conv)
  with a show "removeFromCompare (addToCompare s i) i = s"
    by (simp add: addToCompare_def removeFromCompare_def)
  then show "compareList (removeFromCompare (addToCompare s i) i) = compareList s" by simp
qed

theorem compare_list_distinct_witness:
  "distinct (compareList (run_compare fresh_components six_adds)) \<and>
   addToCompare (run_compare fresh_components six_adds) 2 =
     run_compare fresh_components six_adds \<and>
   removeFromCompare (addToCompare fresh_components 4) 4 = fresh_components"
proof -
  have start: "compareList fresh_components = []"
    by (simp add: fresh_components_def initial_components_def)
  have member: "2 \<in> set (compareList (run_compare fresh_components six_adds))"
    by (simp add: six_adds_list)
  note t = compare_list_distinct [where ?s0.0 = fresh_components and actions = six_adds
      and s = "run_compare fresh_components six_adds" and i = 2]
  note u = compare_list_distinct [where ?s0.0 = fresh_components and actions = six_adds
      and s = fresh_components and i = 4]
  from t start have d: "distinct (compareList (run_compare fresh_components six_adds))"
    by blast
  from t member have m: "addToCompare (run_compare fresh_components six_adds) 2 =
     run_compare fresh_components six_adds" by blast
  from start have "length (compareList fresh_components) < 5 \<and>
      4 \<notin> set (compareList fresh_components)" by simp
  with u have r: "removeFromCompare (addToCompare fresh_components 4) 4 = fresh_components"
    by blast
  from d m r show ?thesis by blast
qed

section \<open>Properties of the chat\<close>

lemma chat_request_eq:
  "chat_request st sid msg = \<lparr>setup_id = sid, message = msg, history = chatHistory st\<rparr>"
  by (simp add: chat_request_def map_idI)

lemma sendChatMessage_history:
  "chatHistory (fst (snd (sendChatMessage api srv st sid msg))) =
     chatHistory st @
       [\<lparr>role = User, content = msg\<rparr>,
        \<lparr>role = Assistant, content = snd (snd (sendChatMessage api srv st sid msg))\<rparr>]"
  by (cases "api srv (chat_request st sid msg)")
    (auto simp: sendChatMessage_def Let_def split: option.splits)

lemma sendChatMessage_recorded:
  "fst (sendChatMessage (recording respond) reqs st sid msg) =
     reqs @ [\<lparr>setup_id = sid, message = msg, history = chatHistory st\<rparr>]"
  by (simp add: sendChatMessage_def Let_def recording_def chat_request_eq split: option.splits)

lemma sendChatMessage_answered:
  "api srv (chat_request st sid msg) = (srv', Some r) \<Longrightarrow>
   sendChatMessage api srv st sid msg =
     (srv',
      st\<lparr>chatHistory := chatHistory st @
           [\<lparr>role = User, content = msg\<rparr>, \<lparr>role = Assistant, content = r\<rparr>],
         isLoading := False\<rparr>,
      r)"
  by (simp add: sendChatMessage_def Let_def)

text \<open>
  Claim C5. Every chat call appends the user message to the transcript, on success and
  on failure alike, followed by one assistant entry that holds the value returned.
  \<open>sendChatMessage\<close> sends the service exactly one request, which carries the prior
  transcript (as the store held it before the call) together with the new message; on
  success it appends the service's response, unmodified, as the assistant message and
  returns it. The transcript is supplied by the caller on each call: the request of the
  next call carries the transcript the previous call left in the store. It is not
  persisted by the service: against the service's chat operation the store of the
  service is left as it was, and the assistant message is what the reasoning service
  answered to the replayed transcript with the new message appended.
\<close>

theorem sendChatMessage_forwards:
  "chatHistory (fst (snd (sendChatMessage api srv st sid msg))) =
     chatHistory st @
       [\<lparr>role = User, content = msg\<rparr>,
        \<lparr>role = Assistant, content = snd (snd (sendChatMessage api srv st sid msg))\<rparr>] \<and>
   chat_request st sid msg = \<lparr>setup_id = sid, message = msg, history = chatHistory st\<rparr> \<and>
   fst (sendChatMessage (recording respond) reqs st sid msg) =
     reqs @ [\<lparr>setup_id = sid, message = msg, history = chatHistory st\<rparr>] \<and>
   (api srv (chat_request st sid msg) = (srv', Some r) \<longrightarrow>
      sendChatMessage api srv st sid msg =
        (srv',
         st\<lparr>chatHistory := chatHistory st @
              [\<lparr>role = User, content = msg\<rparr>, \<lparr>role = Assistant, content = r\<rparr>],
            isLoading := False\<rparr>,
         r)) \<and>
   fst (sendChatMessage (recording respond)
          (fst (sendChatMessage (recording respond) reqs st sid msg))
          (fst (snd (sendChatMessage (recording respond) reqs st sid msg))) sid msg2) =
     reqs @
       [\<lparr>setup_id = sid, message = msg, history = chatHistory st\<rparr>,
        \<lparr>setup_id = sid, message = msg2,
         history = chatHistory st @
           [\<lparr>role = User, content = msg\<rparr>,
            \<lparr>role = Assistant,
             content = snd (snd (sendChatMessage (recording respond) reqs st sid msg))\<rparr>]\<rparr>] \<and>
   fst (sendChatMessage (chat reasoning) db st sid msg) = db \<and>
   (reasoning db sid (chatHistory st @ [\<lparr>role = User, content = msg\<rparr>]) msg = Some a \<longrightarrow>
      sendChatMessage (chat reasoning) db st sid msg =
        (db,
         st\<lparr>chatHistory := chatHistory st @
              [\<lparr>role = User, content = msg\<rparr>, \<lparr>role = Assistant, content = a\<rparr>],
            isLoading := False\<rparr>,
         a))"
proof (intro conjI impI)
  show "chatHistory (fst (snd (sendChatMessage api srv st sid msg))) =
     chatHistory st @
       [\<lparr>role = User, content = msg\<rparr>,
        \<lparr>role = Assistant, content = snd (snd (sendChatMessage api srv st sid msg))\<rparr>]"
    by (rule sendChatMessage_history)
next
  show "chat_request st sid msg = \<lparr>setup_id = sid, message = msg, history = chatHistory st\<rparr>"
    by (rule chat_request_eq)
next
  show "fst (sendChatMessage (recording respond) reqs st sid msg) =
     reqs @ [\<lparr>setup_id = sid, message = msg, history = chatHistory st\<rparr>]"
    by (rule sendChatMessage_recorded)
next
  assume "api srv (chat_request st sid msg) = (srv', Some r)"
  then show "sendChatMessage api srv st sid msg =
        (srv',
         st\<lparr>chatHistory := chatHistory st @
              [\<lparr>role = User, content = msg\<rparr>, \<lparr>role = Assistant, content = r\<rparr>],
            isLoading := False\<rparr>,
         r)"
    by (rule sendChatMessage_answered)
next
  show "fst (sendChatMessage (recording respond)
          (fst (sendChatMessage (recording respond) reqs st sid msg))
          (fst (snd (sendChatMessage (recording respond) reqs st sid msg))) sid msg2) =
     reqs @
       [\<lparr>setup_id = sid, message = msg, history = chatHistory st\<rparr>,
        \<lparr>setup_id = sid, message = msg2,
         history = chatHistory st @
           [\<lparr>role = User, content = msg\<rparr>,
            \<lparr>role = Assistant,
             content = snd (snd (sendChatMessage (recording respond) reqs st sid msg))\<rparr>]\<rparr>]"
    by (simp only: sendChatMessage_recorded sendChatMessage_history append_assoc append.simps)
next
  show "fst (sendChatMessage (chat reasoning) db st sid msg) = db"
    by (simp add: sendChatMessage_def Let_def chat_def split: option.splits)
next
  assume "reasoning db sid (chatHistory st @ [\<lparr>role = User, content = msg\<rparr>]) msg = Some a"
  then have "chat reasoning db (chat_request st sid msg) = (db, Some a)"
    by (simp add: chat_def chat_request_eq)
  then show "sendChatMessage (chat reasoning) db st sid msg =
        (db,
         st\<lparr>chatHistory := chatHistory st @
              [\<lparr>role = User, content = msg\<rparr>, \<lparr>role = Assistant, content = a\<rparr>],
            isLoading := False\<rparr>,
         a)"
    by (rule sendChatMessage_answered)
qed

theorem sendChatMessage_forwards_witness:
  "sendChatMessage (recording echo) [] one_turn ''s1'' ''which motor?'' =
     ([\<lparr>setup_id = ''s1'', message = ''which motor?'', history = chatHistory one_turn\<rparr>],
      one_turn\<lparr>chatHistory := chatHistory one_turn @
          [\<lparr>role = User, content = ''which motor?''\<rparr>,
           \<lparr>role = Assistant, content = ''which motor?''\<rparr>],
        isLoading := False\<rparr>,
      ''which motor?'') \<and>
   chatHistory (fst (snd (sendChatMessage (recording rejecting) [] one_turn ''s1'' ''which motor?''))) =
     chatHistory one_turn @
       [\<lparr>role = User, content = ''which motor?''\<rparr>,
        \<lparr>role = Assistant,
         content = snd (snd (sendChatMessage (recording rejecting) [] one_turn ''s1''
           ''which motor?''))\<rparr>] \<and>
   sendChatMessage (chat recall) () one_turn ''s1'' ''which motor?'' =
     ((),
      one_turn\<lparr>chatHistory := chatHistory one_turn @
          [\<lparr>role = User, content = ''which motor?''\<rparr>,
           \<lparr>role = Assistant, content = ''hello''\<rparr>],
        isLoading := False\<rparr>,
      ''hello'')"
proof -
  have answered: "recording echo [] (chat_request one_turn ''s1'' ''which motor?'') =
      ([\<lparr>setup_id = ''s1'', message = ''which motor?'', history = chatHistory one_turn\<rparr>],
       Some ''which motor?'')"
    by (simp add: recording_def echo_def chat_request_eq)
  note t = sendChatMessage_forwards [where api = "recording echo" and srv = "[]"
      and st = one_turn and sid = "''s1''" and msg = "''which motor?''"
      and r = "''which motor?''"
      and srv' = "[\<lparr>setup_id = ''s1'', message = ''which motor?'',
          history = chatHistory one_turn\<rparr>]"
      and respond = echo and reqs = "[]" and ?msg2.0 = "''and which driver?''"
      and reasoning = recall and db = "()" and a = "''hello''"]
  from t answered have first: "sendChatMessage (recording echo) [] one_turn ''s1'' ''which motor?'' =
     ([\<lparr>setup_id = ''s1'', message = ''which motor?'', history = chatHistory one_turn\<rparr>],
      one_turn\<lparr>chatHistory := chatHistory one_turn @
          [\<lparr>role = User, content = ''which motor?''\<rparr>,
           \<lparr>role = Assistant, content = ''which motor?''\<rparr>],
        isLoading := False\<rparr>,
      ''which motor?'')"
    by blast
  note u = sendChatMessage_forwards [where api = "recording rejecting" and srv = "[]"
      and st = one_turn and sid = "''s1''" and msg = "''which motor?''"
      and r = "''which motor?''"
      and srv' = "[\<lparr>setup_id = ''s1'', message = ''which motor?'',
          history = chatHistory one_turn\<rparr>]"
      and respond = echo and reqs = "[]" and ?msg2.0 = "''and which driver?''"
      and reasoning = recall and db = "()" and a = "''hello''"]
  from u have second:
    "chatHistory (fst (snd (sendChatMessage (recording rejecting) [] one_turn ''s1''
        ''which motor?''))) =
     chatHistory one_turn @
       [\<lparr>role = User, content = ''which motor?''\<rparr>,
        \<lparr>role = Assistant,
         content = snd (snd (sendChatMessage (recording rejecting) [] one_turn ''s1''
           ''which motor?''))\<rparr>]"
    by blast
  have recalled: "recall () ''s1''
      (chatHistory one_turn @ [\<lparr>role = User, content = ''which motor?''\<rparr>]) ''which motor?'' =
      Some ''hello''"
    by (simp add: recall_def one_turn_def)
  with t have third: "sendChatMessage (chat recall) () one_turn ''s1'' ''which motor?'' =
     ((),
      one_turn\<lparr>chatHistory := chatHistory one_turn @
          [\<lparr>role = User, content = ''which motor?''\<rparr>,
           \<lparr>role = Assistant, content = ''hello''\<rparr>],
        isLoading := False\<rparr>,
      ''hello'')"
    by blast
  from first second third show ?thesis by blast
qed

text \<open>
  Claim C10. Every \<open>sendChatMessage\<close> call grows the chat transcript by exactly two
  entries, the user message followed by one assistant entry whose content is the value
  returned, also when the service call fails: on failure the assistant entry is the
  fixed string "Sorry, I encountered an error. Please try again.", the error field is
  set to "Chat request failed", and the fixed string is returned in place of an
  exception.
\<close>

theorem sendChatMessage_two_entries:
  "length (chatHistory (fst (snd (sendChatMessage api srv st sid msg)))) =
     length (chatHistory st) + 2 \<and>
   chatHistory (fst (snd (sendChatMessage api srv st sid msg))) =
     chatHistory st @
       [\<lparr>role = User, content = msg\<rparr>,
        \<lparr>role = Assistant, content = snd (snd (sendChatMessage api srv st sid msg))\<rparr>] \<and>
   (snd (api srv (chat_request st sid msg)) = None \<longrightarrow>
      snd (snd (sendChatMessage api srv st sid msg)) =
        ''Sorry, I encountered an error. Please try again.'' \<and>
      error (fst (snd (sendChatMessage api srv st sid msg))) = Some ''Chat request failed'' \<and>
      fst (snd (sendChatMessage api srv st sid msg)) =
        st\<lparr>chatHistory := chatHistory st @
             [\<lparr>role = User, content = msg\<rparr>,
              \<lparr>role = Assistant,
               content = ''Sorry, I encountered an error. Please try again.''\<rparr>],
           isLoading := False, error := Some ''Chat request failed''\<rparr>)"
  by (cases "api srv (chat_request st sid msg)")
    (auto simp: sendChatMessage_def Let_def split: option.splits)

theorem sendChatMessage_two_entries_witness:
  "chatHistory (fst (snd (sendChatMessage (recording rejecting) [] one_turn ''s1'' ''which motor?''))) =
     [\<lparr>role = User, content = ''hello''\<rparr>, \<lparr>role = Assistant, content = ''hi''\<rparr>,
      \<lparr>role = User, content = ''which motor?''\<rparr>,
      \<lparr>role = Assistant, content = ''Sorry, I encountered an error. Please try again.''\<rparr>] \<and>
   snd (snd (sendChatMessage (recording rejecting) [] one_turn ''s1'' ''which motor?'')) =
     ''Sorry, I encountered an error. Please try again.'' \<and>
   error (fst (snd (sendChatMessage (recording rejecting) [] one_turn ''s1'' ''which motor?''))) =
     Some ''Chat request failed''"
proof -
  have failed: "snd (recording rejecting [] (chat_request one_turn ''s1'' ''which motor?'')) =
      (None :: string option)"
    by (simp add: recording_def rejecting_def)
  have h: "chatHistory one_turn =
      [\<lparr>role = User, content = ''hello''\<rparr>, \<lparr>role = Assistant, content = ''hi''\<rparr>]"
    by (simp add: one_turn_def)
  from failed sendChatMessage_two_entries [where api = "recording rejecting" and srv = "[]"
      and st = one_turn and sid = "''s1''" and msg = "''which motor?''"]
  show ?thesis by (simp add: h)
qed

end
